theory Spec2Isabelle
  imports Complex_Main
begin

section \<open>Python values used by the robot\<close>

text \<open>
  The exceptions the modelled code can raise: \<^verbatim>\<open>ValueError\<close> (an unconfigured colour in
  \<^verbatim>\<open>create_color_mask\<close>), \<^verbatim>\<open>AttributeError\<close> (\<^verbatim>\<open>None.upper()\<close> in the controller's
  messages) and \<^verbatim>\<open>ZeroDivisionError\<close> (true division by zero). A function that can raise
  returns \<open>py_error + 'a\<close>, with \<open>Inl\<close> for the exception.

  Python floats are idealised as real numbers: areas, ratios, durations and clock
  readings are \<open>real\<close>, and \<^verbatim>\<open>a / b\<close> is exact division.
\<close>

datatype py_error = ValueError | AttributeError | ZeroDivisionError

definition truediv :: "real \<Rightarrow> real \<Rightarrow> py_error + real" where
  "truediv a b = (if b = 0 then Inl ZeroDivisionError else Inr (a / b))"

text \<open>\<^verbatim>\<open>int(x)\<close> on a float truncates towards zero.\<close>

definition py_int :: "real \<Rightarrow> int" where
  "py_int x = (if 0 \<le> x then \<lfloor>x\<rfloor> else \<lceil>x\<rceil>)"

text \<open>
  \<^verbatim>\<open>xs.sort(key=k, reverse=True)\<close>: a stable sort into descending key order. CPython
  reverses the list, sorts it stably in ascending order and reverses it again, so equal
  keys keep their original relative order.
\<close>

definition sort_reverse :: "('a \<Rightarrow> real) \<Rightarrow> 'a list \<Rightarrow> 'a list" where
  "sort_reverse k xs = rev (sort_key k (rev xs))"


section \<open>Perception (vision.py)\<close>

record detected_object =
  color :: string
  center_x :: int
  center_y :: int
  area :: real
  bbox :: "int \<times> int \<times> int \<times> int"
  aspect_ratio :: real

text \<open>
  OpenCV is external. A contour is represented by what the code asks OpenCV about it:
  \<^verbatim>\<open>cv2.contourArea\<close>, \<^verbatim>\<open>cv2.boundingRect\<close> \<open>(x, y, w, h)\<close> and the moments
  \<^verbatim>\<open>m00\<close>, \<^verbatim>\<open>m10\<close>, \<^verbatim>\<open>m01\<close> of \<^verbatim>\<open>cv2.moments\<close>. A mask is represented by the list of
  external contours \<^verbatim>\<open>cv2.findContours\<close> returns on it, and a frame by the mask that
  blurring, HSV conversion, range thresholding and the morphological opening and closing
  produce for each colour name.
\<close>

record contour =
  contourArea :: real
  boundingRect :: "int \<times> int \<times> int \<times> int"
  m00 :: real
  m10 :: real
  m01 :: real

type_synonym mask = "contour list"
type_synonym frame = "string \<Rightarrow> mask"
type_synonym hsv = "nat \<times> nat \<times> nat"

record vision_system =
  resolution :: "int \<times> int"
  color_ranges :: "(string \<times> (hsv \<times> hsv) list) list"
  block_min_area :: real
  block_max_area :: real
  sheet_min_area :: real
  sheet_max_area :: real
  block_aspect_ratio_range :: "real \<times> real"
  sheet_aspect_ratio_range :: "real \<times> real"
  frame_center_x :: int
  frame_center_y :: int

text \<open>\<^verbatim>\<open>VisionSystem.__init__\<close>, without the camera.\<close>

definition VisionSystem :: "int \<times> int \<Rightarrow> vision_system" where
  "VisionSystem res =
     \<lparr> resolution = res,
       color_ranges =
         [(''red'', [((0, 100, 100), (10, 255, 255)), ((160, 100, 100), (180, 255, 255))]),
          (''yellow'', [((20, 100, 100), (35, 255, 255))]),
          (''blue'', [((100, 100, 80), (130, 255, 255))]),
          (''black'', [((0, 0, 0), (180, 255, 50))])],
       block_min_area = 300,
       block_max_area = 5000,
       sheet_min_area = 8000,
       sheet_max_area = 100000,
       block_aspect_ratio_range = (0.5, 2.0),
       sheet_aspect_ratio_range = (0.3, 0.9),
       frame_center_x = fst res div 2,
       frame_center_y = snd res div 2 \<rparr>"

text \<open>
  \<^verbatim>\<open>create_color_mask\<close>: raises \<^verbatim>\<open>ValueError\<close> for a colour that is not a key of
  \<^verbatim>\<open>color_ranges\<close>; otherwise the mask is OpenCV's.
\<close>

definition create_color_mask :: "vision_system \<Rightarrow> frame \<Rightarrow> string \<Rightarrow> py_error + mask" where
  "create_color_mask vs hsv_frame c =
     (if map_of (color_ranges vs) c = None then Inl ValueError else Inr (hsv_frame c))"

text \<open>\<^verbatim>\<open>aspect_ratio = w / h if h > 0 else 0\<close>\<close>

definition aspect_ratio_of :: "int \<Rightarrow> int \<Rightarrow> py_error + real" where
  "aspect_ratio_of w h = (if h > 0 then truediv (real_of_int w) (real_of_int h) else Inr 0)"

text \<open>The centre of a contour: from the moments, or the centre of the bounding box.\<close>

definition centroid :: "contour \<Rightarrow> py_error + int \<times> int" where
  "centroid c =
     (case boundingRect c of (x, y, w, h) \<Rightarrow>
        if m00 c \<noteq> 0 then
          (case truediv (m10 c) (m00 c) of
             Inl e \<Rightarrow> Inl e
           | Inr qx \<Rightarrow>
               (case truediv (m01 c) (m00 c) of
                  Inl e \<Rightarrow> Inl e
                | Inr qy \<Rightarrow> Inr (py_int qx, py_int qy)))
        else Inr (x + w div 2, y + h div 2))"

text \<open>
  The body of the loop of \<^verbatim>\<open>extract_objects_from_mask\<close> for one contour: \<open>Inr None\<close>
  is \<^verbatim>\<open>continue\<close>, \<open>Inr (Some obj)\<close> is the object appended.
\<close>

definition contour_object ::
  "string \<Rightarrow> real \<Rightarrow> real \<Rightarrow> real \<times> real \<Rightarrow> contour \<Rightarrow> py_error + detected_object option" where
  "contour_object col min_area max_area aspect_ratio_range c =
     (if contourArea c < min_area \<or> contourArea c > max_area then Inr None
      else
        (case boundingRect c of (x, y, w, h) \<Rightarrow>
           (case aspect_ratio_of w h of
              Inl e \<Rightarrow> Inl e
            | Inr ar \<Rightarrow>
                if ar < fst aspect_ratio_range \<or> ar > snd aspect_ratio_range then Inr None
                else
                  (case centroid c of
                     Inl e \<Rightarrow> Inl e
                   | Inr (cx, cy) \<Rightarrow>
                       Inr (Some \<lparr> color = col, center_x = cx, center_y = cy,
                                   area = contourArea c, bbox = (x, y, w, h),
                                   aspect_ratio = ar \<rparr>)))))"

fun extract_loop ::
  "string \<Rightarrow> real \<Rightarrow> real \<Rightarrow> real \<times> real \<Rightarrow> contour list \<Rightarrow> detected_object list
     \<Rightarrow> py_error + detected_object list" where
  "extract_loop col min_area max_area rng [] objects = Inr objects"
| "extract_loop col min_area max_area rng (c # contours) objects =
     (case contour_object col min_area max_area rng c of
        Inl e \<Rightarrow> Inl e
      | Inr None \<Rightarrow> extract_loop col min_area max_area rng contours objects
      | Inr (Some obj) \<Rightarrow> extract_loop col min_area max_area rng contours (objects @ [obj]))"

definition extract_objects_from_mask ::
  "mask \<Rightarrow> string \<Rightarrow> real \<Rightarrow> real \<Rightarrow> real \<times> real \<Rightarrow> py_error + detected_object list" where
  "extract_objects_from_mask msk col min_area max_area aspect_ratio_range =
     (case extract_loop col min_area max_area aspect_ratio_range msk [] of
        Inl e \<Rightarrow> Inl e
      | Inr objects \<Rightarrow> Inr (sort_reverse area objects))"

text \<open>
  The loop over the colours, which \<^verbatim>\<open>detect_small_blocks\<close> and \<^verbatim>\<open>detect_sheets\<close> share
  up to the class parameters: mask, extraction, \<^verbatim>\<open>extend\<close>.
\<close>

fun detect_loop ::
  "vision_system \<Rightarrow> frame \<Rightarrow> real \<Rightarrow> real \<Rightarrow> real \<times> real \<Rightarrow> string list \<Rightarrow> detected_object list
     \<Rightarrow> py_error + detected_object list" where
  "detect_loop vs hsv_frame min_area max_area rng [] acc = Inr acc"
| "detect_loop vs hsv_frame min_area max_area rng (c # colors) acc =
     (case create_color_mask vs hsv_frame c of
        Inl e \<Rightarrow> Inl e
      | Inr msk \<Rightarrow>
          (case extract_objects_from_mask msk c min_area max_area rng of
             Inl e \<Rightarrow> Inl e
           | Inr objs \<Rightarrow> detect_loop vs hsv_frame min_area max_area rng colors (acc @ objs)))"

definition detect_small_blocks ::
  "vision_system \<Rightarrow> frame \<Rightarrow> string list \<Rightarrow> py_error + detected_object list" where
  "detect_small_blocks vs frm colors =
     (case detect_loop vs frm (block_min_area vs) (block_max_area vs)
             (block_aspect_ratio_range vs) colors [] of
        Inl e \<Rightarrow> Inl e
      | Inr all_blocks \<Rightarrow> Inr (sort_reverse area all_blocks))"

definition detect_sheets ::
  "vision_system \<Rightarrow> frame \<Rightarrow> string list \<Rightarrow> py_error + detected_object list" where
  "detect_sheets vs frm colors =
     (case detect_loop vs frm (sheet_min_area vs) (sheet_max_area vs)
             (sheet_aspect_ratio_range vs) colors [] of
        Inl e \<Rightarrow> Inl e
      | Inr all_sheets \<Rightarrow> Inr (sort_reverse area all_sheets))"

text \<open>The default arguments of the two detectors.\<close>

definition block_colors :: "string list" where
  "block_colors = [''red'', ''yellow'', ''blue'']"

definition sheet_colors :: "string list" where
  "sheet_colors = [''black'', ''red'', ''yellow'', ''blue'']"

definition calculate_alignment_error :: "vision_system \<Rightarrow> detected_object \<Rightarrow> int \<times> string" where
  "calculate_alignment_error vs obj =
     (let error = center_x obj - frame_center_x vs;
          center_threshold = 30
      in if \<bar>error\<bar> < center_threshold then (error, ''centered'')
         else if error > 0 then (error, ''right'')
         else (error, ''left''))"

definition estimate_distance :: "detected_object \<Rightarrow> real \<Rightarrow> py_error + string" where
  "estimate_distance obj reference_area =
     (case truediv (area obj) reference_area of
        Inl e \<Rightarrow> Inl e
      | Inr area_ratio \<Rightarrow>
          Inr (if area_ratio > 1.5 then ''too_close''
               else if area_ratio < 0.5 then ''too_far''
               else ''good''))"


section \<open>Actuator (car_controller.py)\<close>

text \<open>
  The serial link is external. What the controller does to the car is recorded as the
  sequence of \<^verbatim>\<open>send_command\<close> calls and \<^verbatim>\<open>time.sleep\<close> calls it makes, in order.
\<close>

datatype car_action = Send string | Sleep real

definition default_move_duration :: real where
  "default_move_duration = 0.5"

definition default_turn_duration :: real where
  "default_turn_duration = 0.3"

definition stop :: "car_action list" where
  "stop = [Send ''S'', Sleep 0.1]"

definition forward :: "real option \<Rightarrow> car_action list" where
  "forward duration =
     [Send ''A'', Sleep (case duration of None \<Rightarrow> default_move_duration | Some d \<Rightarrow> d)] @ stop"

definition backward :: "real option \<Rightarrow> car_action list" where
  "backward duration =
     [Send ''B'', Sleep (case duration of None \<Rightarrow> default_move_duration | Some d \<Rightarrow> d)] @ stop"

definition turn_left :: "real option \<Rightarrow> car_action list" where
  "turn_left duration =
     [Send ''L'', Sleep (case duration of None \<Rightarrow> default_turn_duration | Some d \<Rightarrow> d)] @ stop"

definition turn_right :: "real option \<Rightarrow> car_action list" where
  "turn_right duration =
     [Send ''R'', Sleep (case duration of None \<Rightarrow> default_turn_duration | Some d \<Rightarrow> d)] @ stop"

definition rotate_clockwise :: "real option \<Rightarrow> car_action list" where
  "rotate_clockwise duration =
     [Send ''rC'', Sleep (case duration of None \<Rightarrow> default_turn_duration | Some d \<Rightarrow> d)] @ stop"

definition grab_block :: "car_action list" where
  "grab_block = [Send ''go'', Sleep 4.0]"

definition release_block :: "car_action list" where
  "release_block = [Send ''rel'', Sleep 1.5]"

definition align_to_target :: "string \<Rightarrow> int \<Rightarrow> car_action list" where
  "align_to_target direction error =
     (if direction = ''centered'' then []
      else
        (let turn_time = min (0.1 + real_of_int \<bar>error\<bar> / 500) 0.5
         in if direction = ''left'' then turn_left (Some turn_time)
            else if direction = ''right'' then turn_right (Some turn_time)
            else []))"


section \<open>Controller (main.py)\<close>

datatype RobotState = FIND_BLOCK | GRAB_BLOCK | ALIGN_TO_TARGET_SHEET | DROP_BLOCK | IDLE

text \<open>
  The attributes of \<^verbatim>\<open>BlockPickingRobot\<close> that are assigned after \<^verbatim>\<open>__init__\<close>. The
  parameters \<^verbatim>\<open>state_timeout\<close>, \<^verbatim>\<open>max_search_attempts\<close> and \<^verbatim>\<open>alignment_tolerance\<close> are
  set once in \<^verbatim>\<open>__init__\<close> and never assigned again: they are constants here.
\<close>

record robot =
  current_state :: RobotState
  previous_state :: "RobotState option"
  current_block_color :: "string option"
  blocks_processed :: int
  state_start_time :: real
  search_attempts :: int

definition state_timeout :: real where
  "state_timeout = 30.0"

definition max_search_attempts :: int where
  "max_search_attempts = 20"

definition alignment_tolerance :: int where
  "alignment_tolerance = 40"

text \<open>
  \<^verbatim>\<open>BlockPickingRobot.__init__\<close>; the argument is the reading of \<^verbatim>\<open>time.time()\<close> there.
  The robot's vision system is built with the default resolution.
\<close>

definition BlockPickingRobot :: "real \<Rightarrow> robot" where
  "BlockPickingRobot now =
     \<lparr> current_state = FIND_BLOCK,
       previous_state = None,
       current_block_color = None,
       blocks_processed = 0,
       state_start_time = now,
       search_attempts = 0 \<rparr>"

definition robot_vision :: vision_system where
  "robot_vision = VisionSystem (640, 480)"

text \<open>\<^verbatim>\<open>change_state\<close>; \<open>now\<close> is the reading of \<^verbatim>\<open>time.time()\<close> in it.\<close>

definition change_state :: "robot \<Rightarrow> RobotState \<Rightarrow> real \<Rightarrow> robot" where
  "change_state r new_state now =
     r\<lparr> previous_state := Some (current_state r),
        current_state := new_state,
        state_start_time := now \<rparr>"

definition check_timeout :: "robot \<Rightarrow> real \<Rightarrow> bool" where
  "check_timeout r now = (let elapsed = now - state_start_time r in elapsed > state_timeout)"

text \<open>
  The empty-detection branch that \<^verbatim>\<open>state_find_block\<close> and
  \<^verbatim>\<open>state_align_to_target_sheet\<close> both contain.
\<close>

definition search_step :: "robot \<Rightarrow> bool \<times> robot \<times> car_action list" where
  "search_step r =
     (let r1 = r\<lparr> search_attempts := search_attempts r + 1 \<rparr>
      in if search_attempts r1 > max_search_attempts
         then (False, r1\<lparr> search_attempts := 0 \<rparr>, [Sleep 2])
         else (False, r1, rotate_clockwise (Some 0.3) @ [Sleep 0.3]))"

text \<open>
  Each state function returns its boolean, the robot after it and the actions it issued.
\<close>

definition state_find_block ::
  "vision_system \<Rightarrow> robot \<Rightarrow> frame \<Rightarrow> py_error + bool \<times> robot \<times> car_action list" where
  "state_find_block vs r frm =
     (case detect_small_blocks vs frm block_colors of
        Inl e \<Rightarrow> Inl e
      | Inr [] \<Rightarrow> Inr (search_step r)
      | Inr (block # _) \<Rightarrow>
          (let r1 = r\<lparr> search_attempts := 0 \<rparr>;
               r2 = r1\<lparr> current_block_color := Some (color block) \<rparr>;
               (error, direction) = calculate_alignment_error vs block
           in if \<bar>error\<bar> > alignment_tolerance
              then Inr (False, r2, align_to_target direction error @ [Sleep 0.2])
              else Inr (True, r2, [])))"

text \<open>
  \<^verbatim>\<open>state_grab_block\<close> and \<^verbatim>\<open>state_drop_block\<close> first format
  \<^verbatim>\<open>self.current_block_color.upper()\<close>, which raises \<^verbatim>\<open>AttributeError\<close> on \<^verbatim>\<open>None\<close>.
\<close>

definition state_grab_block :: "robot \<Rightarrow> py_error + bool \<times> robot \<times> car_action list" where
  "state_grab_block r =
     (case current_block_color r of
        None \<Rightarrow> Inl AttributeError
      | Some c \<Rightarrow> Inr (True, r\<lparr> blocks_processed := blocks_processed r + 1 \<rparr>, grab_block))"

text \<open>
  \<^verbatim>\<open>state_align_to_target_sheet\<close> passes \<^verbatim>\<open>[self.current_block_color]\<close> to
  \<^verbatim>\<open>detect_sheets\<close>; \<^verbatim>\<open>None\<close> is not a key of \<^verbatim>\<open>color_ranges\<close>, so
  \<^verbatim>\<open>create_color_mask\<close> raises \<^verbatim>\<open>ValueError\<close> for it.
\<close>

definition state_align_to_target_sheet ::
  "vision_system \<Rightarrow> robot \<Rightarrow> frame \<Rightarrow> py_error + bool \<times> robot \<times> car_action list" where
  "state_align_to_target_sheet vs r frm =
     (case current_block_color r of
        None \<Rightarrow> Inl ValueError
      | Some c \<Rightarrow>
          (case detect_sheets vs frm [c] of
             Inl e \<Rightarrow> Inl e
           | Inr [] \<Rightarrow> Inr (search_step r)
           | Inr (target_sheet # _) \<Rightarrow>
               (let r1 = r\<lparr> search_attempts := 0 \<rparr>;
                    (error, direction) = calculate_alignment_error vs target_sheet
                in case estimate_distance target_sheet 20000 of
                     Inl e \<Rightarrow> Inl e
                   | Inr distance \<Rightarrow>
                       if \<bar>error\<bar> > alignment_tolerance
                       then Inr (False, r1, align_to_target direction error @ [Sleep 0.2])
                       else if distance = ''too_far''
                       then Inr (False, r1, forward (Some 0.4) @ [Sleep 0.2])
                       else if distance = ''too_close''
                       then Inr (False, r1, backward (Some 0.3) @ [Sleep 0.2])
                       else Inr (True, r1, []))))"

definition state_drop_block :: "robot \<Rightarrow> py_error + bool \<times> robot \<times> car_action list" where
  "state_drop_block r =
     (case current_block_color r of
        None \<Rightarrow> Inl AttributeError
      | Some c \<Rightarrow> Inr (True, r\<lparr> current_block_color := None \<rparr>, release_block))"

definition state_idle :: "robot \<Rightarrow> bool \<times> robot \<times> car_action list" where
  "state_idle r = (False, r, [])"

text \<open>
  The dispatch on the current state: the state function, without the transition that
  follows its result.
\<close>

definition state_step ::
  "vision_system \<Rightarrow> robot \<Rightarrow> frame \<Rightarrow> py_error + bool \<times> robot \<times> car_action list" where
  "state_step vs r frm =
     (case current_state r of
        FIND_BLOCK \<Rightarrow> state_find_block vs r frm
      | GRAB_BLOCK \<Rightarrow> state_grab_block r
      | ALIGN_TO_TARGET_SHEET \<Rightarrow> state_align_to_target_sheet vs r frm
      | DROP_BLOCK \<Rightarrow> state_drop_block r
      | IDLE \<Rightarrow> Inr (state_idle r))"

text \<open>The state entered when the current state's function reports done.\<close>

fun next_state :: "RobotState \<Rightarrow> RobotState" where
  "next_state FIND_BLOCK = GRAB_BLOCK"
| "next_state GRAB_BLOCK = ALIGN_TO_TARGET_SHEET"
| "next_state ALIGN_TO_TARGET_SHEET = DROP_BLOCK"
| "next_state DROP_BLOCK = IDLE"
| "next_state IDLE = IDLE"

text \<open>
  \<^verbatim>\<open>run_state_machine\<close>, one tick. \<open>now_check\<close> is the clock reading in
  \<^verbatim>\<open>check_timeout\<close>, \<open>now_enter\<close> the one in \<^verbatim>\<open>change_state\<close>. In \<^verbatim>\<open>IDLE\<close> the
  result of \<^verbatim>\<open>state_idle\<close> is not acted upon.
\<close>

definition run_state_machine ::
  "vision_system \<Rightarrow> robot \<Rightarrow> frame \<Rightarrow> real \<Rightarrow> real \<Rightarrow> py_error + robot \<times> car_action list" where
  "run_state_machine vs r frm now_check now_enter =
     (if current_state r \<noteq> IDLE \<and> check_timeout r now_check
      then Inr (change_state r FIND_BLOCK now_enter, [])
      else
        (case state_step vs r frm of
           Inl e \<Rightarrow> Inl e
         | Inr (state_complete, r', acts) \<Rightarrow>
             if state_complete \<and> current_state r \<noteq> IDLE
             then Inr (change_state r' (next_state (current_state r)) now_enter, acts)
             else Inr (r', acts)))"

text \<open>
  One iteration of the loop of \<^verbatim>\<open>run\<close>: the frame (\<open>None\<close> when the capture failed), the
  detections for the overlay, the tick, then the key read by \<^verbatim>\<open>cv2.waitKey(1) & 0xFF\<close>.
  The boolean of the result is False when the loop ends (\<^verbatim>\<open>q\<close>). \<open>now_key\<close> is the clock
  reading of the \<^verbatim>\<open>change_state\<close> in the key handling.
\<close>

definition handle_key :: "robot \<Rightarrow> char \<Rightarrow> real \<Rightarrow> bool \<times> robot \<times> car_action list" where
  "handle_key r k now_key =
     (if k = CHR ''q'' then (False, r, [])
      else if k = CHR ''c'' then
        (if current_state r = IDLE
         then (True, change_state r FIND_BLOCK now_key, [Sleep 0.05])
         else (True, r, [Sleep 0.05]))
      else if k = CHR ''r'' then
        (True, change_state (r\<lparr> current_block_color := None \<rparr>) FIND_BLOCK now_key, [Sleep 0.05])
      else (True, r, [Sleep 0.05]))"

definition loop_iteration ::
  "vision_system \<Rightarrow> robot \<Rightarrow> frame option \<Rightarrow> char \<Rightarrow> real \<Rightarrow> real \<Rightarrow> real
     \<Rightarrow> py_error + bool \<times> robot \<times> car_action list" where
  "loop_iteration vs r captured k now_check now_enter now_key =
     (case captured of
        None \<Rightarrow> Inr (True, r, [Sleep 0.1])
      | Some frm \<Rightarrow>
          (case detect_small_blocks vs frm block_colors of
             Inl e \<Rightarrow> Inl e
           | Inr blocks \<Rightarrow>
               (case detect_sheets vs frm sheet_colors of
                  Inl e \<Rightarrow> Inl e
                | Inr sheets \<Rightarrow>
                    (case run_state_machine vs r frm now_check now_enter of
                       Inl e \<Rightarrow> Inl e
                     | Inr (r', acts) \<Rightarrow>
                         (case handle_key r' k now_key of
                            (go, r'', acts') \<Rightarrow> Inr (go, r'', acts @ acts'))))))"

text \<open>
  The robots the running program can be in between iterations: the constructed one, and
  the result of any iteration that does not raise, on any frame, key and clock readings.
\<close>

inductive reachable :: "robot \<Rightarrow> bool" where
  init: "reachable (BlockPickingRobot now)"
| step: "reachable r \<Longrightarrow>
         loop_iteration robot_vision r captured k now_check now_enter now_key = Inr (go, r', acts)
         \<Longrightarrow> reachable r'"


section \<open>Example inputs\<close>

text \<open>
  Contours as OpenCV would report them at 640x480: a red block and a red sheet centred
  on the frame, a red block far to the left, a blue and a yellow block, a speck, a wide
  strip, and the empty contour (no points: area 0 and bounding box \<open>(0, 0, 0, 0)\<close>).
\<close>

definition centred_block :: contour where
  "centred_block =
     \<lparr> contourArea = 1000, boundingRect = (304, 224, 32, 32),
       m00 = 1000, m10 = 320000, m01 = 240000 \<rparr>"

definition centred_sheet :: contour where
  "centred_sheet =
     \<lparr> contourArea = 20000, boundingRect = (270, 140, 100, 200),
       m00 = 20000, m10 = 6400000, m01 = 4800000 \<rparr>"

definition left_block :: contour where
  "left_block =
     \<lparr> contourArea = 1000, boundingRect = (4, 224, 32, 32),
       m00 = 1000, m10 = 20000, m01 = 240000 \<rparr>"

definition blue_block :: contour where
  "blue_block =
     \<lparr> contourArea = 2000, boundingRect = (100, 100, 50, 40),
       m00 = 2000, m10 = 250000, m01 = 240000 \<rparr>"

definition yellow_block :: contour where
  "yellow_block =
     \<lparr> contourArea = 1500, boundingRect = (500, 300, 40, 40),
       m00 = 1500, m10 = 780000, m01 = 480000 \<rparr>"

definition speck :: contour where
  "speck = \<lparr> contourArea = 50, boundingRect = (10, 10, 8, 8), m00 = 50, m10 = 700, m01 = 700 \<rparr>"

definition strip :: contour where
  "strip =
     \<lparr> contourArea = 1000, boundingRect = (0, 0, 100, 10), m00 = 1000, m10 = 50000, m01 = 5000 \<rparr>"

definition empty_contour :: contour where
  "empty_contour = \<lparr> contourArea = 0, boundingRect = (0, 0, 0, 0), m00 = 0, m10 = 0, m01 = 0 \<rparr>"

definition centred_frame :: frame where
  "centred_frame = (\<lambda>c. if c = ''red'' then [centred_block, centred_sheet] else [])"

definition offset_frame :: frame where
  "offset_frame = (\<lambda>c. if c = ''red'' then [left_block] else [])"

definition blank_frame :: frame where
  "blank_frame = (\<lambda>c. [])"

definition mixed_frame :: frame where
  "mixed_frame =
     (\<lambda>c. if c = ''red'' then [speck, centred_block, centred_sheet]
          else if c = ''yellow'' then [yellow_block]
          else if c = ''blue'' then [blue_block]
          else [])"

text \<open>Detected objects for the two helpers.\<close>

definition object_at :: "int \<Rightarrow> real \<Rightarrow> detected_object" where
  "object_at cx a =
     \<lparr> color = ''red'', center_x = cx, center_y = 240, area = a,
       bbox = (cx - 50, 140, 100, 200), aspect_ratio = 0.5 \<rparr>"


text \<open>
  Robots along one run of the program, with the clock read as 1, 2, 3, 4 in successive
  iterations: after the block was found, after the grab, while searching for the sheet,
  after the alignment and after the drop.
\<close>

definition at_grab :: robot where
  "at_grab =
     \<lparr> current_state = GRAB_BLOCK, previous_state = Some FIND_BLOCK,
       current_block_color = Some ''red'', blocks_processed = 0,
       state_start_time = 1, search_attempts = 0 \<rparr>"

definition at_align :: robot where
  "at_align =
     \<lparr> current_state = ALIGN_TO_TARGET_SHEET, previous_state = Some GRAB_BLOCK,
       current_block_color = Some ''red'', blocks_processed = 1,
       state_start_time = 2, search_attempts = 0 \<rparr>"

definition at_align_searching :: robot where
  "at_align_searching = at_align \<lparr> search_attempts := 1 \<rparr>"

definition at_drop :: robot where
  "at_drop =
     \<lparr> current_state = DROP_BLOCK, previous_state = Some ALIGN_TO_TARGET_SHEET,
       current_block_color = Some ''red'', blocks_processed = 1,
       state_start_time = 3, search_attempts = 0 \<rparr>"

definition at_idle :: robot where
  "at_idle =
     \<lparr> current_state = IDLE, previous_state = Some DROP_BLOCK,
       current_block_color = None, blocks_processed = 1,
       state_start_time = 4, search_attempts = 0 \<rparr>"

text \<open>
  Two more robots: the initial one after a tick that saw a block far to the left, and
  the sheet-searching one after its state timed out at clock reading 33.
\<close>

definition after_misaligned :: robot where
  "after_misaligned =
     \<lparr> current_state = FIND_BLOCK, previous_state = None,
       current_block_color = Some ''red'', blocks_processed = 0,
       state_start_time = 0, search_attempts = 0 \<rparr>"

definition after_timeout :: robot where
  "after_timeout =
     \<lparr> current_state = FIND_BLOCK, previous_state = Some ALIGN_TO_TARGET_SHEET,
       current_block_color = Some ''red'', blocks_processed = 1,
       state_start_time = 33, search_attempts = 1 \<rparr>"


section \<open>The invariant of the controller\<close>

text \<open>
  A colour is held in \<^verbatim>\<open>GRAB_BLOCK\<close>, \<^verbatim>\<open>ALIGN_TO_TARGET_SHEET\<close> and \<^verbatim>\<open>DROP_BLOCK\<close>, none
  is held in \<^verbatim>\<open>IDLE\<close>, and the search counter is 0 in the states that do not search.
\<close>

definition controller_inv :: "robot \<Rightarrow> bool" where
  "controller_inv r \<longleftrightarrow>
     (current_state r \<in> {GRAB_BLOCK, ALIGN_TO_TARGET_SHEET, DROP_BLOCK}
        \<longrightarrow> current_block_color r \<noteq> None)
     \<and> (current_state r = IDLE \<longrightarrow> current_block_color r = None)
     \<and> (current_state r \<in> {GRAB_BLOCK, DROP_BLOCK, IDLE} \<longrightarrow> search_attempts r = 0)"


section \<open>Unfolding sets for the examples\<close>

lemmas example_defs = centred_block_def centred_sheet_def left_block_def blue_block_def
  yellow_block_def speck_def strip_def empty_contour_def centred_frame_def offset_frame_def
  blank_frame_def mixed_frame_def object_at_def

lemmas vision_defs = extract_objects_from_mask_def contour_object_def aspect_ratio_of_def
  truediv_def centroid_def py_int_def sort_reverse_def create_color_mask_def
  detect_small_blocks_def detect_sheets_def block_colors_def sheet_colors_def
  robot_vision_def VisionSystem_def


lemmas car_defs = stop_def forward_def backward_def turn_left_def turn_right_def
  rotate_clockwise_def grab_block_def release_block_def align_to_target_def
  default_move_duration_def default_turn_duration_def

lemmas controller_defs = loop_iteration_def run_state_machine_def state_step_def
  state_find_block_def state_grab_block_def state_align_to_target_sheet_def
  state_drop_block_def state_idle_def search_step_def handle_key_def change_state_def
  check_timeout_def state_timeout_def max_search_attempts_def alignment_tolerance_def
  calculate_alignment_error_def estimate_distance_def BlockPickingRobot_def

lemmas state_defs = at_grab_def at_align_def at_align_searching_def at_drop_def at_idle_def

lemmas state_defs' = state_defs after_misaligned_def after_timeout_def


section \<open>Perception: the guarded divisions never raise\<close>

lemma aspect_ratio_of_eq:
  "aspect_ratio_of w h = Inr (if h > 0 then real_of_int w / real_of_int h else 0)"
  by (simp add: aspect_ratio_of_def truediv_def)

lemma centroid_total: "\<exists>p. centroid c = Inr p"
  by (cases "boundingRect c") (simp add: centroid_def truediv_def)

lemma contour_object_total: "\<exists>v. contour_object col mn mx rng c = Inr v"
proof -
  obtain p where "centroid c = Inr p" using centroid_total by blast
  then show ?thesis
    by (cases "boundingRect c"; cases p) (simp add: contour_object_def aspect_ratio_of_eq)
qed

lemma contour_object_Some:
  assumes "contour_object col mn mx rng c = Inr (Some obj)"
  shows "mn \<le> area obj \<and> area obj \<le> mx
       \<and> fst rng \<le> aspect_ratio obj \<and> aspect_ratio obj \<le> snd rng
       \<and> color obj = col \<and> area obj = contourArea c \<and> bbox obj = boundingRect c
       \<and> aspect_ratio obj =
           (case boundingRect c of (x, y, w, h) \<Rightarrow>
              if h > 0 then real_of_int w / real_of_int h else 0)"
  using assms
  by (cases "boundingRect c")
     (auto simp: contour_object_def aspect_ratio_of_eq split: if_splits sum.splits prod.splits)

lemma contour_object_flat:
  assumes "boundingRect c = (x, y, w, 0)" and "0 < fst rng"
  shows "contour_object col mn mx rng c = Inr None"
  using assms by (simp add: contour_object_def aspect_ratio_of_eq)

lemma extract_loop_total: "\<exists>objs. extract_loop col mn mx rng cs acc = Inr objs"
proof (induction cs arbitrary: acc)
  case Nil
  show ?case by simp
next
  case (Cons c cs)
  obtain v where v: "contour_object col mn mx rng c = Inr v"
    using contour_object_total by blast
  show ?case using Cons.IH by (cases v) (simp_all add: v)
qed

lemma extract_loop_member:
  "extract_loop col mn mx rng cs acc = Inr objs \<Longrightarrow> obj \<in> set objs \<Longrightarrow>
     obj \<in> set acc \<or> (\<exists>c \<in> set cs. contour_object col mn mx rng c = Inr (Some obj))"
proof (induction cs arbitrary: acc)
  case Nil
  then show ?case by simp
next
  case (Cons c cs)
  obtain v where v: "contour_object col mn mx rng c = Inr v"
    using contour_object_total by blast
  show ?case
  proof (cases v)
    case None
    with Cons v show ?thesis by fastforce
  next
    case (Some o')
    with Cons.prems v have "extract_loop col mn mx rng cs (acc @ [o']) = Inr objs" by simp
    from Cons.IH [OF this Cons.prems(2)] Some v show ?thesis by auto
  qed
qed

lemma extract_loop_append:
  "extract_loop col mn mx rng (cs1 @ cs2) acc =
     (case extract_loop col mn mx rng cs1 acc of
        Inl e \<Rightarrow> Inl e
      | Inr acc' \<Rightarrow> extract_loop col mn mx rng cs2 acc')"
  by (induction cs1 arbitrary: acc) (simp_all split: sum.splits option.splits)

lemma extract_objects_from_mask_total:
  "\<exists>objs. extract_objects_from_mask msk col mn mx rng = Inr objs"
proof -
  obtain raw where "extract_loop col mn mx rng msk [] = Inr raw"
    using extract_loop_total by blast
  then show ?thesis by (simp add: extract_objects_from_mask_def)
qed


section \<open>The descending sort\<close>

lemma set_sort_reverse: "set (sort_reverse k xs) = set xs"
  by (simp add: sort_reverse_def)

lemma sorted_sort_reverse: "sorted_wrt (\<lambda>a b. k b \<le> k a) (sort_reverse k xs)"
proof -
  have "sorted (map k (sort_key k (rev xs)))" by (rule sorted_sort_key)
  then have "sorted_wrt (\<lambda>a b. k a \<le> k b) (sort_key k (rev xs))"
    by (simp add: sorted_map)
  then show ?thesis by (simp add: sort_reverse_def sorted_wrt_rev)
qed


section \<open>Perception: the claims\<close>

text \<open>
  C3. For every detected object, \<^verbatim>\<open>calculate_alignment_error\<close> returns
  \<open>error = center_x - frame_center_x\<close>; the direction is \<^verbatim>\<open>centered\<close> exactly when
  \<open>\<bar>error\<bar> < 30\<close>, \<^verbatim>\<open>right\<close> when \<open>\<bar>error\<bar> \<ge> 30\<close> and \<open>error > 0\<close>, and \<^verbatim>\<open>left\<close> when
  \<open>\<bar>error\<bar> \<ge> 30\<close> and \<open>error < 0\<close>.
\<close>

theorem alignment_error_direction:
  "fst (calculate_alignment_error vs obj) = center_x obj - frame_center_x vs
   \<and> (snd (calculate_alignment_error vs obj) = ''centered''
        \<longleftrightarrow> \<bar>center_x obj - frame_center_x vs\<bar> < 30)
   \<and> (\<bar>center_x obj - frame_center_x vs\<bar> \<ge> 30 \<and> center_x obj - frame_center_x vs > 0
        \<longrightarrow> snd (calculate_alignment_error vs obj) = ''right'')
   \<and> (\<bar>center_x obj - frame_center_x vs\<bar> \<ge> 30 \<and> center_x obj - frame_center_x vs < 0
        \<longrightarrow> snd (calculate_alignment_error vs obj) = ''left'')"
  by (simp add: calculate_alignment_error_def Let_def)

text \<open>
  At the edge of the dead zone, with the frame centre at 320: an object at 350 has error
  30 and direction \<^verbatim>\<open>right\<close>, one at 290 has error -30 and direction \<^verbatim>\<open>left\<close>.
\<close>

theorem alignment_error_direction_witness:
  "\<bar>center_x (object_at 350 1000) - frame_center_x robot_vision\<bar> \<ge> 30
   \<and> center_x (object_at 350 1000) - frame_center_x robot_vision > 0
   \<and> calculate_alignment_error robot_vision (object_at 350 1000) = (30, ''right'')
   \<and> \<bar>center_x (object_at 290 1000) - frame_center_x robot_vision\<bar> \<ge> 30
   \<and> center_x (object_at 290 1000) - frame_center_x robot_vision < 0
   \<and> calculate_alignment_error robot_vision (object_at 290 1000) = (- 30, ''left'')"
  using alignment_error_direction [of robot_vision "object_at 350 1000"]
    alignment_error_direction [of robot_vision "object_at 290 1000"]
  by (simp add: object_at_def robot_vision_def VisionSystem_def prod_eq_iff)

text \<open>
  C4. For every object and positive \<open>reference_area\<close>, \<^verbatim>\<open>estimate_distance\<close> depends only
  on the ratio \<open>area / reference_area\<close> and compares strictly: the result is
  \<^verbatim>\<open>too_close\<close> exactly when the ratio is greater than 1.5, \<^verbatim>\<open>too_far\<close> exactly when it
  is less than 0.5, and \<^verbatim>\<open>good\<close> otherwise, so that the ratios 1.5 and 0.5 themselves
  give \<^verbatim>\<open>good\<close>.
\<close>

theorem estimate_distance_thresholds:
  assumes "0 < reference_area"
  shows "(estimate_distance obj reference_area = Inr ''too_close''
            \<longleftrightarrow> area obj / reference_area > 1.5)
       \<and> (estimate_distance obj reference_area = Inr ''too_far''
            \<longleftrightarrow> area obj / reference_area < 0.5)
       \<and> (estimate_distance obj reference_area = Inr ''good''
            \<longleftrightarrow> \<not> area obj / reference_area > 1.5 \<and> \<not> area obj / reference_area < 0.5)
       \<and> (\<forall>obj' reference_area'. 0 < reference_area'
              \<and> area obj' / reference_area' = area obj / reference_area
            \<longrightarrow> estimate_distance obj' reference_area' = estimate_distance obj reference_area)"
proof -
  have eq: "estimate_distance o' ref =
              Inr (if q > 1.5 then ''too_close'' else if q < 0.5 then ''too_far'' else ''good'')"
    if "0 < ref" "q = area o' / ref" for o' ref q
    using that by (simp add: estimate_distance_def truediv_def)
  define q where "q = area obj / reference_area"
  have here: "estimate_distance obj reference_area =
                Inr (if q > 1.5 then ''too_close'' else if q < 0.5 then ''too_far'' else ''good'')"
    using assms q_def by (rule eq)
  have pure: "estimate_distance obj' reference_area' = estimate_distance obj reference_area"
    if "0 < reference_area'" "area obj' / reference_area' = area obj / reference_area"
    for obj' reference_area'
  proof -
    have "q = area obj' / reference_area'" using that(2) q_def by simp
    from eq [OF that(1) this] here show ?thesis by simp
  qed
  have "(estimate_distance obj reference_area = Inr ''too_close'' \<longleftrightarrow> q > 1.5)
      \<and> (estimate_distance obj reference_area = Inr ''too_far'' \<longleftrightarrow> q < 0.5)
      \<and> (estimate_distance obj reference_area = Inr ''good'' \<longleftrightarrow> \<not> q > 1.5 \<and> \<not> q < 0.5)"
    unfolding here by simp
  with pure show ?thesis unfolding q_def by blast
qed

text \<open>
  Area 30000 against 20000 is the ratio 1.5 exactly: \<^verbatim>\<open>good\<close>; area 15000 against 10000
  is the same ratio and the same answer.
\<close>

theorem estimate_distance_thresholds_witness:
  "(0::real) < 20000
   \<and> estimate_distance (object_at 320 30000) 20000 = Inr ''good''
   \<and> estimate_distance (object_at 320 15000) 10000 = Inr ''good''"
proof -
  have pos: "(0::real) < 20000" by simp
  note t = estimate_distance_thresholds [OF pos, of "object_at 320 30000"]
  from t have g: "estimate_distance (object_at 320 30000) 20000 = Inr ''good''"
    by (simp add: object_at_def)
  from t have "(0::real) < 10000
      \<and> area (object_at 320 15000) / 10000 = area (object_at 320 30000) / 20000
      \<longrightarrow> estimate_distance (object_at 320 15000) 10000
            = estimate_distance (object_at 320 30000) 20000"
    by blast
  then have "estimate_distance (object_at 320 15000) 10000
               = estimate_distance (object_at 320 30000) 20000"
    by (simp add: object_at_def)
  with g pos show ?thesis by simp
qed

text \<open>
  C5, as the code has it. For a detected object with area 10000 and \<open>reference_area\<close>
  20000 (the ratio 0.5 exactly), \<^verbatim>\<open>estimate_distance\<close> returns \<^verbatim>\<open>good\<close>: the comparison
  with 0.5 is strict.
\<close>

theorem estimate_distance_half_good:
  "estimate_distance (obj\<lparr> area := 10000 \<rparr>) 20000 = Inr ''good''"
  by (simp add: estimate_distance_def truediv_def)

text \<open>The answer at area 10000 and reference 20000 is not \<^verbatim>\<open>too_far\<close>.\<close>

theorem estimate_distance_half_not_too_far:
  "estimate_distance (object_at 320 10000) 20000 \<noteq> Inr ''too_far''"
  by (simp add: estimate_distance_def truediv_def object_at_def)

text \<open>
  C6. For every mask and class parameters, every object \<^verbatim>\<open>extract_objects_from_mask\<close>
  returns has its area in \<open>[min_area, max_area]\<close> and its aspect ratio in
  \<open>[min_ratio, max_ratio]\<close>, the aspect ratio being width over height of its bounding
  box (0 when the height is not positive).
\<close>

theorem extract_within_class_spec:
  assumes "extract_objects_from_mask msk col min_area max_area rng = Inr objs"
    and "obj \<in> set objs"
  shows "min_area \<le> area obj \<and> area obj \<le> max_area
       \<and> fst rng \<le> aspect_ratio obj \<and> aspect_ratio obj \<le> snd rng
       \<and> aspect_ratio obj =
           (case bbox obj of (x, y, w, h) \<Rightarrow>
              if h > 0 then real_of_int w / real_of_int h else 0)"
proof -
  from assms(1) obtain raw where raw: "extract_loop col min_area max_area rng msk [] = Inr raw"
    and objs: "objs = sort_reverse area raw"
    by (auto simp: extract_objects_from_mask_def split: sum.splits)
  from assms(2) objs have "obj \<in> set raw" by (simp add: set_sort_reverse)
  with extract_loop_member [OF raw] obtain c
    where "contour_object col min_area max_area rng c = Inr (Some obj)" by auto
  from contour_object_Some [OF this] show ?thesis by simp
qed

text \<open>
  With the block parameters, a speck (area 50) and a strip (aspect ratio 10) are dropped
  and the 32x32 block is kept.
\<close>

theorem extract_within_class_spec_witness:
  "extract_objects_from_mask [speck, strip, centred_block] ''red'' 300 5000 (0.5, 2)
     = Inr [\<lparr> color = ''red'', center_x = 320, center_y = 240, area = 1000,
              bbox = (304, 224, 32, 32), aspect_ratio = 1 \<rparr>]
   \<and> (300::real) \<le> 1000 \<and> (1000::real) \<le> 5000 \<and> (0.5::real) \<le> 1 \<and> (1::real) \<le> 2"
proof -
  have run: "extract_objects_from_mask [speck, strip, centred_block] ''red'' 300 5000 (0.5, 2)
     = Inr [\<lparr> color = ''red'', center_x = 320, center_y = 240, area = 1000,
              bbox = (304, 224, 32, 32), aspect_ratio = 1 \<rparr>]"
    by (simp add: vision_defs example_defs)
  from extract_within_class_spec [OF run] run show ?thesis by simp
qed


text \<open>
  C7. Every list of detected objects returned by \<^verbatim>\<open>extract_objects_from_mask\<close>,
  \<^verbatim>\<open>detect_small_blocks\<close> or \<^verbatim>\<open>detect_sheets\<close> is in non-increasing order of area
  (largest first), also after the results for several colours were concatenated.
\<close>

theorem detections_ordered_by_area:
  "(extract_objects_from_mask msk col min_area max_area rng = Inr objs
      \<longrightarrow> sorted_wrt (\<lambda>a b. area a \<ge> area b) objs)
   \<and> (detect_small_blocks vs frm colors = Inr blocks
      \<longrightarrow> sorted_wrt (\<lambda>a b. area a \<ge> area b) blocks)
   \<and> (detect_sheets vs frm' colors' = Inr sheets
      \<longrightarrow> sorted_wrt (\<lambda>a b. area a \<ge> area b) sheets)"
  by (auto simp: extract_objects_from_mask_def detect_small_blocks_def detect_sheets_def
        sorted_sort_reverse split: sum.splits)

text \<open>
  Three contours given smallest first come out largest first, and the blocks of a frame
  with a red, a yellow and a blue block come out blue (2000), yellow (1500), red (1000),
  though red is searched first.
\<close>

theorem detections_ordered_by_area_witness:
  "map_sum id (map area)
       (extract_objects_from_mask [centred_block, blue_block, yellow_block] ''red'' 300 5000 (0.5, 2))
     = Inr [2000, 1500, 1000]
   \<and> map_sum id (map (\<lambda>b. (color b, area b))) (detect_small_blocks robot_vision mixed_frame block_colors)
     = Inr [(''blue'', 2000), (''yellow'', 1500), (''red'', 1000)]
   \<and> map_sum id (map area) (detect_sheets robot_vision mixed_frame sheet_colors) = Inr [20000]
   \<and> sorted_wrt (\<lambda>a b. area a \<ge> area b)
       (projr (extract_objects_from_mask [centred_block, blue_block, yellow_block] ''red'' 300 5000 (0.5, 2)))
   \<and> sorted_wrt (\<lambda>a b. area a \<ge> area b)
       (projr (detect_small_blocks robot_vision mixed_frame block_colors))
   \<and> sorted_wrt (\<lambda>a b. area a \<ge> area b)
       (projr (detect_sheets robot_vision mixed_frame sheet_colors))"
proof -
  have e: "extract_objects_from_mask [centred_block, blue_block, yellow_block] ''red'' 300 5000 (0.5, 2)
      = Inr (projr (extract_objects_from_mask [centred_block, blue_block, yellow_block] ''red'' 300 5000 (0.5, 2)))"
    by (simp add: vision_defs example_defs)
  have b: "detect_small_blocks robot_vision mixed_frame block_colors
      = Inr (projr (detect_small_blocks robot_vision mixed_frame block_colors))"
    by (simp add: vision_defs example_defs)
  have s: "detect_sheets robot_vision mixed_frame sheet_colors
      = Inr (projr (detect_sheets robot_vision mixed_frame sheet_colors))"
    by (simp add: vision_defs example_defs)
  have v: "map_sum id (map area)
       (extract_objects_from_mask [centred_block, blue_block, yellow_block] ''red'' 300 5000 (0.5, 2))
     = Inr [2000, 1500, 1000]"
    "map_sum id (map (\<lambda>b. (color b, area b))) (detect_small_blocks robot_vision mixed_frame block_colors)
     = Inr [(''blue'', 2000), (''yellow'', 1500), (''red'', 1000)]"
    "map_sum id (map area) (detect_sheets robot_vision mixed_frame sheet_colors) = Inr [20000]"
    by (simp_all add: vision_defs example_defs)
  from detections_ordered_by_area
         [of "[centred_block, blue_block, yellow_block]" "''red''" 300 5000 "(0.5, 2)" _
             robot_vision mixed_frame block_colors _ mixed_frame sheet_colors]
       e b s v
  show ?thesis by blast
qed

text \<open>
  C10. \<^verbatim>\<open>extract_objects_from_mask\<close> is total, also on degenerate bounding boxes: for a
  bounding box of height 0 the aspect ratio is taken to be 0 and no division by zero is
  raised, and whenever the minimum aspect ratio of the class is positive such a contour
  is rejected, so that the result is the same as without it.
\<close>

theorem extract_total_on_flat_boxes:
  "aspect_ratio_of w 0 = Inr 0
   \<and> (\<exists>objs. extract_objects_from_mask msk col min_area max_area rng = Inr objs)
   \<and> (boundingRect c = (x, y, w', 0) \<and> 0 < fst rng
        \<longrightarrow> contour_object col min_area max_area rng c = Inr None
          \<and> extract_objects_from_mask (cs1 @ c # cs2) col min_area max_area rng
              = extract_objects_from_mask (cs1 @ cs2) col min_area max_area rng)"
proof -
  have a: "aspect_ratio_of w 0 = Inr 0" by (simp add: aspect_ratio_of_def)
  have c: "contour_object col min_area max_area rng c = Inr None
          \<and> extract_objects_from_mask (cs1 @ c # cs2) col min_area max_area rng
              = extract_objects_from_mask (cs1 @ cs2) col min_area max_area rng"
    if "boundingRect c = (x, y, w', 0)" "0 < fst rng"
  proof -
    have n: "contour_object col min_area max_area rng c = Inr None"
      using that by (rule contour_object_flat)
    then show ?thesis
      by (simp add: extract_objects_from_mask_def extract_loop_append split: sum.splits)
  qed
  from a extract_objects_from_mask_total [of msk col min_area max_area rng] c
  show ?thesis by blast
qed

text \<open>
  The empty contour, with bounding box \<open>(0, 0, 0, 0)\<close>, passes an area filter that
  starts at 0 and is rejected by the aspect ratio.
\<close>

theorem extract_total_on_flat_boxes_witness:
  "boundingRect empty_contour = (0, 0, 0, 0) \<and> 0 < fst (0.5 :: real, 2 :: real)
   \<and> contour_object ''red'' 0 5000 (0.5, 2) empty_contour = Inr None
   \<and> extract_objects_from_mask ([centred_block] @ empty_contour # [blue_block]) ''red'' 0 5000 (0.5, 2)
       = extract_objects_from_mask ([centred_block] @ [blue_block]) ''red'' 0 5000 (0.5, 2)"
proof -
  have h: "boundingRect empty_contour = (0, 0, 0, 0) \<and> 0 < fst (0.5 :: real, 2 :: real)"
    by (simp add: empty_contour_def)
  from extract_total_on_flat_boxes
         [of 0 "[]" "''red''" 0 5000 "(0.5, 2)" empty_contour 0 0 0 "[centred_block]" "[blue_block]"]
       h
  show ?thesis by blast
qed


section \<open>Controller: what each state function changes\<close>

lemma search_step_fields:
  "search_step r = (d, r', acts) \<Longrightarrow>
     \<not> d \<and> current_state r' = current_state r \<and> current_block_color r' = current_block_color r
     \<and> blocks_processed r' = blocks_processed r"
  by (cases "search_attempts r + 1 > max_search_attempts") (auto simp: search_step_def Let_def)

lemma state_find_block_detected:
  assumes "detect_small_blocks vs frm block_colors = Inr (block # rest)"
  shows "\<exists>d acts. state_find_block vs r frm
           = Inr (d, r\<lparr> search_attempts := 0, current_block_color := Some (color block) \<rparr>, acts)"
proof -
  obtain e dir where "calculate_alignment_error vs block = (e, dir)"
    by (cases "calculate_alignment_error vs block")
  with assms show ?thesis
    by (cases "\<bar>e\<bar> > alignment_tolerance") (auto simp: state_find_block_def)
qed

lemma state_find_block_fields:
  assumes "state_find_block vs r frm = Inr (d, r', acts)"
  shows "current_state r' = current_state r \<and> blocks_processed r' = blocks_processed r
       \<and> (d \<longrightarrow> current_block_color r' \<noteq> None \<and> search_attempts r' = 0)"
proof (cases "detect_small_blocks vs frm block_colors")
  case (Inl e)
  with assms show ?thesis by (simp add: state_find_block_def)
next
  case (Inr blocks)
  show ?thesis
  proof (cases blocks)
    case Nil
    with Inr assms have "search_step r = (d, r', acts)" by (simp add: state_find_block_def)
    from search_step_fields [OF this] show ?thesis by simp
  next
    case (Cons block rest)
    from state_find_block_detected [OF Inr [unfolded Cons], of r] assms
    have "r' = r\<lparr> search_attempts := 0, current_block_color := Some (color block) \<rparr>"
      by auto
    then show ?thesis by simp
  qed
qed

lemma estimate_distance_total:
  "reference_area \<noteq> 0 \<Longrightarrow> \<exists>d. estimate_distance obj reference_area = Inr d"
  by (simp add: estimate_distance_def truediv_def)

lemma state_align_detected:
  assumes "current_block_color r = Some c" and "detect_sheets vs frm [c] = Inr (sheet # rest)"
  shows "\<exists>d acts. state_align_to_target_sheet vs r frm
           = Inr (d, r\<lparr> search_attempts := 0 \<rparr>, acts)"
proof -
  obtain dist where dist: "estimate_distance sheet 20000 = Inr dist"
    using estimate_distance_total [of 20000 sheet] by auto
  obtain e dir where "calculate_alignment_error vs sheet = (e, dir)"
    by (cases "calculate_alignment_error vs sheet")
  with assms dist show ?thesis
    by (cases "\<bar>e\<bar> > alignment_tolerance"; cases "dist = ''too_far''";
        cases "dist = ''too_close''")
       (auto simp: state_align_to_target_sheet_def)
qed

lemma state_align_fields:
  assumes "state_align_to_target_sheet vs r frm = Inr (d, r', acts)"
  shows "current_state r' = current_state r \<and> blocks_processed r' = blocks_processed r
       \<and> current_block_color r' = current_block_color r \<and> current_block_color r \<noteq> None
       \<and> (d \<longrightarrow> search_attempts r' = 0)"
proof (cases "current_block_color r")
  case None
  with assms show ?thesis by (simp add: state_align_to_target_sheet_def)
next
  case (Some c)
  show ?thesis
  proof (cases "detect_sheets vs frm [c]")
    case (Inl e)
    with Some assms show ?thesis by (simp add: state_align_to_target_sheet_def)
  next
    case (Inr sheets)
    show ?thesis
    proof (cases sheets)
      case Nil
      with Inr Some assms have "search_step r = (d, r', acts)"
        by (simp add: state_align_to_target_sheet_def)
      from search_step_fields [OF this] Some show ?thesis by simp
    next
      case (Cons sheet rest)
      from state_align_detected [OF Some Inr [unfolded Cons]] assms
      have "r' = r\<lparr> search_attempts := 0 \<rparr>" by auto
      with Some show ?thesis by simp
    qed
  qed
qed

lemma state_grab_block_fields:
  "state_grab_block r = Inr (d, r', acts) \<Longrightarrow>
     d \<and> current_state r' = current_state r \<and> current_block_color r' = current_block_color r
     \<and> current_block_color r \<noteq> None \<and> search_attempts r' = search_attempts r
     \<and> blocks_processed r' = blocks_processed r + 1"
  by (cases "current_block_color r") (auto simp: state_grab_block_def)

lemma state_drop_block_fields:
  "state_drop_block r = Inr (d, r', acts) \<Longrightarrow>
     d \<and> current_state r' = current_state r \<and> current_block_color r' = None
     \<and> current_block_color r \<noteq> None
     \<and> search_attempts r' = search_attempts r \<and> blocks_processed r' = blocks_processed r"
  by (cases "current_block_color r") (auto simp: state_drop_block_def)

lemma change_state_fields:
  "current_state (change_state r s now) = s
   \<and> current_block_color (change_state r s now) = current_block_color r
   \<and> search_attempts (change_state r s now) = search_attempts r
   \<and> blocks_processed (change_state r s now) = blocks_processed r"
  by (simp add: change_state_def)

lemma state_step_fields:
  assumes "state_step vs r frm = Inr (d, r', acts)"
  shows "current_state r' = current_state r
       \<and> blocks_processed r' =
           (if current_state r = GRAB_BLOCK then blocks_processed r + 1 else blocks_processed r)
       \<and> (current_state r = FIND_BLOCK
            \<longrightarrow> (d \<longrightarrow> current_block_color r' \<noteq> None \<and> search_attempts r' = 0))
       \<and> (current_state r = GRAB_BLOCK
            \<longrightarrow> d \<and> current_block_color r' = current_block_color r
              \<and> current_block_color r \<noteq> None \<and> search_attempts r' = search_attempts r)
       \<and> (current_state r = ALIGN_TO_TARGET_SHEET
            \<longrightarrow> current_block_color r' = current_block_color r
              \<and> current_block_color r \<noteq> None \<and> (d \<longrightarrow> search_attempts r' = 0))
       \<and> (current_state r = DROP_BLOCK
            \<longrightarrow> d \<and> current_block_color r' = None \<and> current_block_color r \<noteq> None
              \<and> search_attempts r' = search_attempts r)
       \<and> (current_state r = IDLE \<longrightarrow> \<not> d \<and> r' = r)"
proof (cases "current_state r")
  case FIND_BLOCK
  with assms have "state_find_block vs r frm = Inr (d, r', acts)" by (simp add: state_step_def)
  from state_find_block_fields [OF this] FIND_BLOCK show ?thesis by simp
next
  case GRAB_BLOCK
  with assms have "state_grab_block r = Inr (d, r', acts)" by (simp add: state_step_def)
  from state_grab_block_fields [OF this] GRAB_BLOCK show ?thesis by simp
next
  case ALIGN_TO_TARGET_SHEET
  with assms have "state_align_to_target_sheet vs r frm = Inr (d, r', acts)"
    by (simp add: state_step_def)
  from state_align_fields [OF this] ALIGN_TO_TARGET_SHEET show ?thesis by simp
next
  case DROP_BLOCK
  with assms have "state_drop_block r = Inr (d, r', acts)" by (simp add: state_step_def)
  from state_drop_block_fields [OF this] DROP_BLOCK show ?thesis by simp
next
  case IDLE
  with assms show ?thesis by (simp add: state_step_def state_idle_def)
qed


section \<open>Controller: the invariant holds in every reachable robot\<close>

lemma controller_inv_find: "current_state r = FIND_BLOCK \<Longrightarrow> controller_inv r"
  by (simp add: controller_inv_def)

lemma run_state_machine_cases:
  assumes "run_state_machine vs r frm t1 t2 = Inr (r', acts)"
  obtains
    (timed_out) "current_state r \<noteq> IDLE" "check_timeout r t1"
      "r' = change_state r FIND_BLOCK t2" "acts = []"
  | (completed) r1 where "\<not> (current_state r \<noteq> IDLE \<and> check_timeout r t1)"
      "state_step vs r frm = Inr (True, r1, acts)" "current_state r \<noteq> IDLE"
      "r' = change_state r1 (next_state (current_state r)) t2"
  | (stayed) d where "\<not> (current_state r \<noteq> IDLE \<and> check_timeout r t1)"
      "state_step vs r frm = Inr (d, r', acts)" "\<not> d \<or> current_state r = IDLE"
proof (cases "current_state r \<noteq> IDLE \<and> check_timeout r t1")
  case True
  with assms have "r' = change_state r FIND_BLOCK t2" "acts = []"
    by (simp_all add: run_state_machine_def)
  with True timed_out show ?thesis by blast
next
  case False
  have unf: "run_state_machine vs r frm t1 t2 =
      (case state_step vs r frm of
         Inl e \<Rightarrow> Inl e
       | Inr (state_complete, r', acts) \<Rightarrow>
           if state_complete \<and> current_state r \<noteq> IDLE
           then Inr (change_state r' (next_state (current_state r)) t2, acts)
           else Inr (r', acts))"
    unfolding run_state_machine_def using False by (rule if_not_P)
  show ?thesis
  proof (cases "state_step vs r frm")
    case (Inl e)
    with unf assms show ?thesis by simp
  next
    case (Inr res)
    obtain d r1 a1 where res: "res = (d, r1, a1)" by (cases res)
    show ?thesis
    proof (cases "d \<and> current_state r \<noteq> IDLE")
      case True
      with unf Inr res assms
      have r': "r' = change_state r1 (next_state (current_state r)) t2" and a: "acts = a1"
        by simp_all
      from True Inr res a have "state_step vs r frm = Inr (True, r1, acts)" by simp
      from completed [OF False this _ r'] True show ?thesis by simp
    next
      case no: False
      with unf Inr res assms have "r' = r1" "acts = a1"
        by auto
      with Inr res have "state_step vs r frm = Inr (d, r', acts)" by simp
      from stayed [OF False this] no show ?thesis by blast
    qed
  qed
qed

lemma run_state_machine_inv:
  assumes "controller_inv r" and "run_state_machine vs r frm t1 t2 = Inr (r', acts)"
  shows "controller_inv r'"
  using assms(2)
proof (cases rule: run_state_machine_cases)
  case timed_out
  then show ?thesis by (simp add: controller_inv_find change_state_fields)
next
  case (completed r1)
  from state_step_fields [OF completed(2)] completed(3,4) assms(1) show ?thesis
    by (cases "current_state r") (simp_all add: controller_inv_def change_state_fields)
next
  case (stayed d)
  from state_step_fields [OF stayed(2)] stayed(3) assms(1) show ?thesis
    by (cases "current_state r") (auto simp: controller_inv_def)
qed


lemma handle_key_cases:
  assumes "handle_key r k t = (go, r', acts)"
  shows "r' = r \<or> (current_state r = IDLE \<and> r' = change_state r FIND_BLOCK t)
       \<or> r' = change_state (r\<lparr> current_block_color := None \<rparr>) FIND_BLOCK t"
  using assms
  by (cases "k = CHR ''q''"; cases "k = CHR ''c''"; cases "k = CHR ''r''";
      cases "current_state r = IDLE")
     (simp_all add: handle_key_def)


lemma handle_key_inv:
  assumes "controller_inv r" and "handle_key r k t = (go, r', acts)"
  shows "controller_inv r'"
proof -
  from handle_key_cases [OF assms(2)]
  consider "r' = r" | "r' = change_state r FIND_BLOCK t"
    | "r' = change_state (r\<lparr> current_block_color := None \<rparr>) FIND_BLOCK t"
    by blast
  then show ?thesis
  proof cases
    case 1
    with assms(1) show ?thesis by simp
  next
    case 2
    then show ?thesis by (simp add: controller_inv_find change_state_fields)
  next
    case 3
    then show ?thesis by (simp add: controller_inv_find change_state_fields)
  qed
qed

lemma loop_iteration_inv:
  assumes "controller_inv r" and "loop_iteration vs r captured k t1 t2 t3 = Inr (go, r', acts)"
  shows "controller_inv r'"
proof (cases captured)
  case None
  with assms show ?thesis by (simp add: loop_iteration_def)
next
  case (Some frm)
  with assms(2) obtain r1 acts1 go1 acts2
    where tick: "run_state_machine vs r frm t1 t2 = Inr (r1, acts1)"
      and key: "handle_key r1 k t3 = (go1, r', acts2)"
    by (auto simp: loop_iteration_def split: sum.splits prod.splits)
  from handle_key_inv [OF run_state_machine_inv [OF assms(1) tick] key] show ?thesis .
qed


lemma reachable_inv: "reachable r \<Longrightarrow> controller_inv r"
proof (induction rule: reachable.induct)
  case (init now)
  show ?case by (simp add: controller_inv_def BlockPickingRobot_def)
next
  case (step r captured k now_check now_enter now_key go r' acts)
  from loop_iteration_inv [OF step.IH step.hyps(2)] show ?case .
qed


section \<open>Controller: one run of the program\<close>

lemma first_iteration:
  "loop_iteration robot_vision (BlockPickingRobot 0) (Some centred_frame) CHR ''x'' 1 1 1
     = Inr (True, at_grab, [Sleep 0.05])"
  by (simp add: controller_defs vision_defs example_defs state_defs Let_def)

lemma second_iteration:
  "loop_iteration robot_vision at_grab (Some centred_frame) CHR ''x'' 2 2 2
     = Inr (True, at_align, grab_block @ [Sleep 0.05])"
  by (simp add: controller_defs vision_defs example_defs state_defs Let_def)

lemma third_iteration_blank:
  "loop_iteration robot_vision at_align (Some blank_frame) CHR ''x'' 3 3 3
     = Inr (True, at_align_searching, rotate_clockwise (Some 0.3) @ [Sleep 0.3, Sleep 0.05])"
  by (simp add: controller_defs vision_defs example_defs state_defs Let_def)

lemma third_iteration:
  "loop_iteration robot_vision at_align (Some centred_frame) CHR ''x'' 3 3 3
     = Inr (True, at_drop, [Sleep 0.05])"
  by (simp add: controller_defs vision_defs example_defs state_defs Let_def)

lemma fourth_iteration:
  "loop_iteration robot_vision at_drop (Some centred_frame) CHR ''x'' 4 4 4
     = Inr (True, at_idle, release_block @ [Sleep 0.05])"
  by (simp add: controller_defs vision_defs example_defs state_defs Let_def)

lemma reachable_at_grab: "reachable at_grab"
  using reachable.step [OF reachable.init first_iteration] .

lemma reachable_at_align: "reachable at_align"
  using reachable.step [OF reachable_at_grab second_iteration] .

lemma reachable_at_align_searching: "reachable at_align_searching"
  using reachable.step [OF reachable_at_align third_iteration_blank] .

lemma reachable_at_drop: "reachable at_drop"
  using reachable.step [OF reachable_at_align third_iteration] .

lemma reachable_at_idle: "reachable at_idle"
  using reachable.step [OF reachable_at_drop fourth_iteration] .

lemma misaligned_iteration:
  "loop_iteration robot_vision (BlockPickingRobot 0) (Some offset_frame) CHR ''x'' 1 1 1
     = Inr (True, after_misaligned, turn_left (Some 0.5) @ [Sleep 0.2, Sleep 0.05])"
  by (simp add: controller_defs vision_defs example_defs state_defs' car_defs Let_def)

lemma timeout_tick:
  "run_state_machine robot_vision at_align_searching blank_frame 33 33 = Inr (after_timeout, [])"
  by (simp add: controller_defs state_defs')

lemma tick_after_timeout:
  "run_state_machine robot_vision after_timeout blank_frame 34 34
     = Inr (after_timeout \<lparr> search_attempts := 2 \<rparr>, rotate_clockwise (Some 0.3) @ [Sleep 0.3])"
  by (simp add: controller_defs vision_defs example_defs state_defs' Let_def)

lemma offset_blocks:
  "detect_small_blocks robot_vision offset_frame block_colors
     = Inr [\<lparr> color = ''red'', center_x = 20, center_y = 240, area = 1000,
              bbox = (4, 224, 32, 32), aspect_ratio = 1 \<rparr>]"
  by (simp add: vision_defs example_defs)

lemma centred_blocks:
  "detect_small_blocks robot_vision centred_frame block_colors
     = Inr [\<lparr> color = ''red'', center_x = 320, center_y = 240, area = 1000,
              bbox = (304, 224, 32, 32), aspect_ratio = 1 \<rparr>]"
  by (simp add: vision_defs example_defs)

lemma centred_sheets:
  "detect_sheets robot_vision centred_frame [''red'']
     = Inr [\<lparr> color = ''red'', center_x = 320, center_y = 240, area = 20000,
              bbox = (270, 140, 100, 200), aspect_ratio = 1 / 2 \<rparr>]"
  by (simp add: vision_defs example_defs)

lemma align_tick:
  "run_state_machine robot_vision at_align_searching centred_frame 3 3 = Inr (at_drop, [])"
  by (simp add: controller_defs vision_defs example_defs state_defs' Let_def)

lemma drop_step:
  "state_step robot_vision at_drop centred_frame
     = Inr (True, at_drop \<lparr> current_block_color := None \<rparr>, release_block)"
  by (simp add: state_step_def state_drop_block_def state_defs)

lemma grab_step:
  "state_step robot_vision at_grab centred_frame
     = Inr (True, at_grab \<lparr> blocks_processed := 1 \<rparr>, grab_block)"
  by (simp add: state_step_def state_grab_block_def state_defs)


section \<open>Controller: the claims\<close>

text \<open>
  C1, as the code has it. In every reachable robot a colour is held
  (\<open>current_block_color\<close> is not \<^verbatim>\<open>None\<close>) while the state is \<^verbatim>\<open>GRAB_BLOCK\<close>,
  \<^verbatim>\<open>ALIGN_TO_TARGET_SHEET\<close> or \<^verbatim>\<open>DROP_BLOCK\<close>, and none is held while the state is
  \<^verbatim>\<open>IDLE\<close>. In \<^verbatim>\<open>FIND_BLOCK\<close> either can be the case: \<^verbatim>\<open>state_find_block\<close> records the
  colour of the largest detected block on every tick that detects one, before it checks
  the alignment, whether or not it then reports done.
\<close>

theorem held_colour_by_state:
  "(reachable r \<longrightarrow>
      (current_state r \<in> {GRAB_BLOCK, ALIGN_TO_TARGET_SHEET, DROP_BLOCK}
         \<longrightarrow> current_block_color r \<noteq> None)
      \<and> (current_state r = IDLE \<longrightarrow> current_block_color r = None))
   \<and> (detect_small_blocks vs frm block_colors = Inr (block # rest) \<longrightarrow>
        (\<exists>d acts. state_find_block vs r frm
           = Inr (d, r\<lparr> search_attempts := 0, current_block_color := Some (color block) \<rparr>,
                  acts)))"
proof -
  have "controller_inv r" if "reachable r" using that by (rule reachable_inv)
  then have a: "reachable r \<longrightarrow>
      (current_state r \<in> {GRAB_BLOCK, ALIGN_TO_TARGET_SHEET, DROP_BLOCK}
         \<longrightarrow> current_block_color r \<noteq> None)
      \<and> (current_state r = IDLE \<longrightarrow> current_block_color r = None)"
    by (simp add: controller_inv_def)
  from a state_find_block_detected [of vs frm block rest r] show ?thesis by blast
qed

text \<open>
  The robot after the first block was found holds red in \<^verbatim>\<open>GRAB_BLOCK\<close>, the robot
  after the drop holds nothing in \<^verbatim>\<open>IDLE\<close>, and a tick of the initial robot on a frame
  with a red block far to the left records red.
\<close>

theorem held_colour_by_state_witness:
  "reachable at_grab \<and> current_state at_grab = GRAB_BLOCK \<and> current_block_color at_grab \<noteq> None
   \<and> reachable at_idle \<and> current_state at_idle = IDLE \<and> current_block_color at_idle = None
   \<and> (\<exists>d acts. state_find_block robot_vision (BlockPickingRobot 0) offset_frame
          = Inr (d, (BlockPickingRobot 0)
                      \<lparr> search_attempts := 0, current_block_color := Some ''red'' \<rparr>, acts))"
proof -
  have g: "current_state at_grab = GRAB_BLOCK" and i: "current_state at_idle = IDLE"
    by (simp_all add: state_defs)
  from held_colour_by_state [where r = at_grab] reachable_at_grab g
  have 1: "current_block_color at_grab \<noteq> None" by simp
  from held_colour_by_state [where r = at_idle] reachable_at_idle i
  have 2: "current_block_color at_idle = None" by simp
  from held_colour_by_state
         [where r = "BlockPickingRobot 0" and vs = robot_vision and frm = offset_frame
            and rest = "[]"
            and block = "\<lparr> color = ''red'', center_x = 20, center_y = 240, area = 1000,
                           bbox = (4, 224, 32, 32), aspect_ratio = 1 \<rparr>"]
       offset_blocks
  have 3: "\<exists>d acts. state_find_block robot_vision (BlockPickingRobot 0) offset_frame
          = Inr (d, (BlockPickingRobot 0)
                      \<lparr> search_attempts := 0, current_block_color := Some ''red'' \<rparr>, acts)"
    by simp
  from reachable_at_grab reachable_at_idle g i 1 2 3 show ?thesis by blast
qed

text \<open>
  After one iteration on a frame whose only block is 300 pixels left of the centre, the
  robot is still in \<^verbatim>\<open>FIND_BLOCK\<close> (the step turned left and reported not done), and it
  holds red.
\<close>

theorem find_block_holds_colour:
  "reachable after_misaligned \<and> current_state after_misaligned = FIND_BLOCK
   \<and> current_block_color after_misaligned = Some ''red''"
  using reachable.step [OF reachable.init misaligned_iteration]
  by (simp add: after_misaligned_def)

text \<open>
  C2, as the code has it. The search-attempt counter is set to 0 by every successful
  detection (a non-empty result of \<^verbatim>\<open>detect_small_blocks\<close> in \<^verbatim>\<open>state_find_block\<close>, or
  of \<^verbatim>\<open>detect_sheets\<close> for the held colour in \<^verbatim>\<open>state_align_to_target_sheet\<close>).
  \<^verbatim>\<open>change_state\<close> does not touch the counter, so a forced timeout transition and the
  key handling (continue, reset) leave it as it is. In a reachable robot the counter is 0
  after every transition made because a state function reported done, and it is 0 in
  \<^verbatim>\<open>IDLE\<close>.
\<close>

theorem search_counter_resets:
  "(detect_small_blocks vs frm block_colors = Inr (block # rest) \<longrightarrow>
      (\<exists>d r' acts. state_find_block vs r frm = Inr (d, r', acts) \<and> search_attempts r' = 0))
   \<and> (current_block_color r = Some c \<and> detect_sheets vs frm [c] = Inr (sheet # rest') \<longrightarrow>
      (\<exists>d r' acts. state_align_to_target_sheet vs r frm = Inr (d, r', acts)
                     \<and> search_attempts r' = 0))
   \<and> search_attempts (change_state r new_state now) = search_attempts r
   \<and> (current_state r \<noteq> IDLE \<and> check_timeout r now_check \<longrightarrow>
        (\<exists>r'. run_state_machine vs r frm now_check now_enter = Inr (r', [])
              \<and> search_attempts r' = search_attempts r))
   \<and> (handle_key r k now = (go, r3, acts3) \<longrightarrow> search_attempts r3 = search_attempts r)
   \<and> (reachable r \<and> \<not> (current_state r \<noteq> IDLE \<and> check_timeout r now_check)
        \<and> run_state_machine vs r frm now_check now_enter = Inr (r2, acts2)
        \<and> current_state r2 \<noteq> current_state r
      \<longrightarrow> search_attempts r2 = 0)
   \<and> (reachable r \<and> current_state r = IDLE \<longrightarrow> search_attempts r = 0)"
proof -
  have a: "\<exists>d r' acts. state_find_block vs r frm = Inr (d, r', acts) \<and> search_attempts r' = 0"
    if "detect_small_blocks vs frm block_colors = Inr (block # rest)"
  proof -
    from state_find_block_detected [OF that, of r] obtain d acts
      where "state_find_block vs r frm
           = Inr (d, r\<lparr> search_attempts := 0, current_block_color := Some (color block) \<rparr>,
                  acts)" by blast
    then show ?thesis by simp
  qed
  have b: "\<exists>d r' acts. state_align_to_target_sheet vs r frm = Inr (d, r', acts)
                     \<and> search_attempts r' = 0"
    if "current_block_color r = Some c" "detect_sheets vs frm [c] = Inr (sheet # rest')"
  proof -
    from state_align_detected [OF that] obtain d acts
      where "state_align_to_target_sheet vs r frm = Inr (d, r\<lparr> search_attempts := 0 \<rparr>, acts)"
      by blast
    then show ?thesis by simp
  qed
  have c: "search_attempts (change_state r new_state now) = search_attempts r"
    by (simp add: change_state_def)
  have d: "search_attempts r2 = 0"
    if r: "reachable r" and nt: "\<not> (current_state r \<noteq> IDLE \<and> check_timeout r now_check)"
      and run: "run_state_machine vs r frm now_check now_enter = Inr (r2, acts2)"
      and ch: "current_state r2 \<noteq> current_state r"
    using run
  proof (cases rule: run_state_machine_cases)
    case timed_out
    with nt show ?thesis by simp
  next
    case (completed r1)
    from reachable_inv [OF r] have inv: "controller_inv r" .
    from state_step_fields [OF completed(2)] completed(3,4) inv show ?thesis
      by (cases "current_state r") (simp_all add: controller_inv_def change_state_fields)
  next
    case (stayed d)
    from state_step_fields [OF stayed(2)] ch show ?thesis by simp
  qed
  have e: "search_attempts r = 0" if "reachable r" "current_state r = IDLE"
    using reachable_inv [OF that(1)] that(2) by (simp add: controller_inv_def)
  have f: "\<exists>r'. run_state_machine vs r frm now_check now_enter = Inr (r', [])
              \<and> search_attempts r' = search_attempts r"
    if "current_state r \<noteq> IDLE \<and> check_timeout r now_check"
    using that by (simp add: run_state_machine_def change_state_def)
  have g: "search_attempts r3 = search_attempts r" if "handle_key r k now = (go, r3, acts3)"
    using handle_key_cases [OF that] by (auto simp: change_state_def)
  from a b c d e f g show ?thesis by blast
qed

text \<open>
  A detection resets a counter of 2 in \<^verbatim>\<open>FIND_BLOCK\<close> and a counter of 1 in
  \<^verbatim>\<open>ALIGN_TO_TARGET_SHEET\<close>; the completed alignment enters \<^verbatim>\<open>DROP_BLOCK\<close> with 0;
  the counter is 0 in \<^verbatim>\<open>IDLE\<close>; a timeout and a reset both keep the counter at 1.
\<close>

theorem search_counter_resets_witness:
  "(\<exists>d r' acts. state_find_block robot_vision (after_timeout \<lparr> search_attempts := 2 \<rparr>) centred_frame
        = Inr (d, r', acts) \<and> search_attempts r' = 0)
   \<and> (\<exists>d r' acts. state_align_to_target_sheet robot_vision at_align_searching centred_frame
        = Inr (d, r', acts) \<and> search_attempts r' = 0)
   \<and> reachable at_align_searching
   \<and> \<not> (current_state at_align_searching \<noteq> IDLE \<and> check_timeout at_align_searching 3)
   \<and> run_state_machine robot_vision at_align_searching centred_frame 3 3 = Inr (at_drop, [])
   \<and> current_state at_drop \<noteq> current_state at_align_searching
   \<and> search_attempts at_align_searching = 1 \<and> search_attempts at_drop = 0
   \<and> reachable at_idle \<and> current_state at_idle = IDLE \<and> search_attempts at_idle = 0
   \<and> current_state at_align_searching \<noteq> IDLE \<and> check_timeout at_align_searching 33
   \<and> (\<exists>r'. run_state_machine robot_vision at_align_searching centred_frame 33 33 = Inr (r', [])
          \<and> search_attempts r' = 1)
   \<and> handle_key at_align_searching CHR ''r'' 4
       = (True, change_state (at_align_searching \<lparr> current_block_color := None \<rparr>) FIND_BLOCK 4,
          [Sleep 0.05])
   \<and> search_attempts
        (change_state (at_align_searching \<lparr> current_block_color := None \<rparr>) FIND_BLOCK 4) = 1"
proof -
  have col: "current_block_color at_align_searching = Some ''red''"
    and nt: "\<not> (current_state at_align_searching \<noteq> IDLE \<and> check_timeout at_align_searching 3)"
    and ch: "current_state at_drop \<noteq> current_state at_align_searching"
    and s1: "search_attempts at_align_searching = 1"
    and idle: "current_state at_idle = IDLE"
    by (simp_all add: state_defs check_timeout_def state_timeout_def)
  note t1 = search_counter_resets
              [where vs = robot_vision and frm = centred_frame
                 and r = "after_timeout \<lparr> search_attempts := 2 \<rparr>"]
  note t2 = search_counter_resets
              [where vs = robot_vision and frm = centred_frame and r = at_align_searching
                 and c = "''red''" and now_check = 3 and now_enter = 3 and ?r2.0 = at_drop
                 and ?acts2.0 = "[]"]
  note t3 = search_counter_resets [where r = at_idle]
  from t1 centred_blocks
  have 1: "\<exists>d r' acts. state_find_block robot_vision (after_timeout \<lparr> search_attempts := 2 \<rparr>)
        centred_frame = Inr (d, r', acts) \<and> search_attempts r' = 0"
    by blast
  from t2 col centred_sheets
  have 2: "\<exists>d r' acts. state_align_to_target_sheet robot_vision at_align_searching centred_frame
        = Inr (d, r', acts) \<and> search_attempts r' = 0"
    by blast
  from t2 reachable_at_align_searching nt align_tick ch
  have 3: "search_attempts at_drop = 0" by blast
  from t3 reachable_at_idle idle have 4: "search_attempts at_idle = 0" by blast
  have to: "current_state at_align_searching \<noteq> IDLE \<and> check_timeout at_align_searching 33"
    by (simp add: state_defs check_timeout_def state_timeout_def)
  note t4 = search_counter_resets
              [where vs = robot_vision and frm = centred_frame and r = at_align_searching
                 and now_check = 33 and now_enter = 33]
  from t4 to s1
  have 5: "\<exists>r'. run_state_machine robot_vision at_align_searching centred_frame 33 33 = Inr (r', [])
          \<and> search_attempts r' = 1"
    by simp
  have key: "handle_key at_align_searching CHR ''r'' 4
       = (True, change_state (at_align_searching \<lparr> current_block_color := None \<rparr>) FIND_BLOCK 4,
          [Sleep 0.05])"
    by (simp add: handle_key_def)
  note t5 = search_counter_resets
              [where r = at_align_searching and k = "CHR ''r''" and now = 4 and go = True
                 and ?r3.0 = "change_state (at_align_searching \<lparr> current_block_color := None \<rparr>)
                                FIND_BLOCK 4"
                 and ?acts3.0 = "[Sleep 0.05]"]
  from t5 key s1
  have 6: "search_attempts
        (change_state (at_align_searching \<lparr> current_block_color := None \<rparr>) FIND_BLOCK 4) = 1"
    by simp
  from 1 2 3 4 5 6 reachable_at_align_searching nt align_tick ch s1 reachable_at_idle idle to key
  show ?thesis by blast
qed

text \<open>
  The robot searching for the sheet with counter 1 times out at clock reading 33: it
  enters \<^verbatim>\<open>FIND_BLOCK\<close> with the counter still 1, and the next tick without a block
  increments it to 2.
\<close>

theorem timeout_keeps_search_counter:
  "reachable at_align_searching
   \<and> run_state_machine robot_vision at_align_searching blank_frame 33 33 = Inr (after_timeout, [])
   \<and> current_state at_align_searching = ALIGN_TO_TARGET_SHEET
   \<and> current_state after_timeout = FIND_BLOCK
   \<and> search_attempts after_timeout = 1
   \<and> run_state_machine robot_vision after_timeout blank_frame 34 34
       = Inr (after_timeout \<lparr> search_attempts := 2 \<rparr>, rotate_clockwise (Some 0.3) @ [Sleep 0.3])"
  using reachable_at_align_searching timeout_tick tick_after_timeout
  by (simp add: state_defs')

text \<open>
  C8, as the code has it. In every reachable robot the \<^verbatim>\<open>DROP_BLOCK\<close> step reports done
  and, in that same step, clears the held colour to \<^verbatim>\<open>None\<close>; it leaves
  \<open>blocks_processed\<close> unchanged. The counter is incremented, by exactly one, by the
  \<^verbatim>\<open>GRAB_BLOCK\<close> step, and no other state's step changes it.
\<close>

theorem completed_counter_steps:
  "(reachable r \<and> current_state r = DROP_BLOCK \<longrightarrow>
      state_step vs r frm = Inr (True, r\<lparr> current_block_color := None \<rparr>, release_block))
   \<and> (state_step vs r frm = Inr (d, r', acts) \<longrightarrow>
        blocks_processed r' =
          (if current_state r = GRAB_BLOCK then blocks_processed r + 1 else blocks_processed r))"
proof -
  have a: "state_step vs r frm = Inr (True, r\<lparr> current_block_color := None \<rparr>, release_block)"
    if "reachable r" "current_state r = DROP_BLOCK"
  proof -
    from reachable_inv [OF that(1)] that(2) obtain c where "current_block_color r = Some c"
      by (auto simp: controller_inv_def)
    with that(2) show ?thesis by (simp add: state_step_def state_drop_block_def)
  qed
  have b: "blocks_processed r' =
          (if current_state r = GRAB_BLOCK then blocks_processed r + 1 else blocks_processed r)"
    if "state_step vs r frm = Inr (d, r', acts)"
    using state_step_fields [OF that] by simp
  from a b show ?thesis by blast
qed

text \<open>
  The drop in the example run keeps the counter and the grab takes it from 0 to 1.
\<close>

theorem completed_counter_steps_witness:
  "reachable at_drop \<and> current_state at_drop = DROP_BLOCK
   \<and> state_step robot_vision at_drop centred_frame
       = Inr (True, at_drop \<lparr> current_block_color := None \<rparr>, release_block)
   \<and> blocks_processed (at_drop \<lparr> current_block_color := None \<rparr>) = blocks_processed at_drop
   \<and> state_step robot_vision at_grab centred_frame
       = Inr (True, at_grab \<lparr> blocks_processed := 1 \<rparr>, grab_block)
   \<and> blocks_processed (at_grab \<lparr> blocks_processed := 1 \<rparr>) = blocks_processed at_grab + 1"
proof -
  have st: "current_state at_drop = DROP_BLOCK" "current_state at_grab = GRAB_BLOCK"
    by (simp_all add: state_defs)
  note t1 = completed_counter_steps
              [where r = at_drop and vs = robot_vision and frm = centred_frame and d = True
                 and r' = "at_drop \<lparr> current_block_color := None \<rparr>" and acts = release_block]
  note t2 = completed_counter_steps
              [where r = at_grab and vs = robot_vision and frm = centred_frame and d = True
                 and r' = "at_grab \<lparr> blocks_processed := 1 \<rparr>" and acts = grab_block]
  from t1 reachable_at_drop st(1)
  have 1: "state_step robot_vision at_drop centred_frame
       = Inr (True, at_drop \<lparr> current_block_color := None \<rparr>, release_block)" by blast
  with t1 st(1)
  have 2: "blocks_processed (at_drop \<lparr> current_block_color := None \<rparr>) = blocks_processed at_drop"
    by simp
  from t2 grab_step st(2)
  have 3: "blocks_processed (at_grab \<lparr> blocks_processed := 1 \<rparr>) = blocks_processed at_grab + 1"
    by simp
  from 1 2 3 grab_step reachable_at_drop st(1) show ?thesis by blast
qed

text \<open>
  In the example run the counter is 1 before the drop and 1 after it, and the grab is
  the step that changed it.
\<close>

theorem drop_leaves_counter_grab_increments:
  "reachable at_drop
   \<and> state_step robot_vision at_drop centred_frame
       = Inr (True, at_drop \<lparr> current_block_color := None \<rparr>, release_block)
   \<and> blocks_processed at_drop = 1
   \<and> blocks_processed (at_drop \<lparr> current_block_color := None \<rparr>) = 1
   \<and> reachable at_grab
   \<and> state_step robot_vision at_grab centred_frame
       = Inr (True, at_grab \<lparr> blocks_processed := 1 \<rparr>, grab_block)
   \<and> blocks_processed at_grab = 0
   \<and> blocks_processed (at_grab \<lparr> blocks_processed := 1 \<rparr>) = 1"
  using reachable_at_drop reachable_at_grab drop_step grab_step
  by (simp add: state_defs)

text \<open>
  C9. For every state except \<^verbatim>\<open>IDLE\<close>, if more than 30 seconds have passed since the
  state was entered when a tick starts, the tick only changes the state to
  \<^verbatim>\<open>FIND_BLOCK\<close> (previous state, current state and entry time are updated, nothing
  else, and no command is issued): the state's own function is not run. In \<^verbatim>\<open>IDLE\<close>
  no timeout applies: a tick leaves the robot as it is, whatever the clock.
\<close>

theorem timeout_forces_find_block:
  "(current_state r \<noteq> IDLE \<and> now_check - state_start_time r > 30 \<longrightarrow>
      run_state_machine vs r frm now_check now_enter
        = Inr (r\<lparr> previous_state := Some (current_state r), current_state := FIND_BLOCK,
                  state_start_time := now_enter \<rparr>, []))
   \<and> (current_state r = IDLE \<longrightarrow> run_state_machine vs r frm now_check now_enter = Inr (r, []))"
  by (simp add: run_state_machine_def check_timeout_def state_timeout_def change_state_def
        state_step_def state_idle_def)

text \<open>
  Entered at 2 and read at 32.1, the state \<^verbatim>\<open>ALIGN_TO_TARGET_SHEET\<close> times out even on
  a frame that shows the sheet centred; \<^verbatim>\<open>IDLE\<close> entered at 4 does not at 1000.
\<close>

theorem timeout_forces_find_block_witness:
  "current_state at_align_searching \<noteq> IDLE
   \<and> 32.1 - state_start_time at_align_searching > 30
   \<and> run_state_machine robot_vision at_align_searching centred_frame 32.1 33
       = Inr (at_align_searching
                \<lparr> previous_state := Some ALIGN_TO_TARGET_SHEET, current_state := FIND_BLOCK,
                  state_start_time := 33 \<rparr>, [])
   \<and> current_state at_idle = IDLE
   \<and> run_state_machine robot_vision at_idle centred_frame 1000 1001 = Inr (at_idle, [])"
  using timeout_forces_find_block
          [where r = at_align_searching and now_check = "32.1" and vs = robot_vision
             and frm = centred_frame and now_enter = 33]
    timeout_forces_find_block
          [where r = at_idle and now_check = 1000 and vs = robot_vision
             and frm = centred_frame and now_enter = 1001]
  by (simp add: state_defs)

end
